theory Spec2Isabelle
  imports Main "HOL-Library.AList"
begin

section \<open>The NextAuth callbacks of \<open>src/app/api/auth/[...nextauth]/route.ts\<close>\<close>

text \<open>
  The file configures two OAuth providers and four callbacks. Three of them carry logic:
  \<open>signIn\<close> reconciles the federated identity with the user collection, \<open>jwt\<close> projects
  the stored record into the session token, \<open>session\<close> copies the token into the outward
  session object. They are embedded below as functions over an explicit world (the user
  collection, the trace of store operations, and the faults the store will raise). What the
  callbacks write to the console is left out.

  JavaScript \<open>null\<close> and \<open>undefined\<close> are identified: the callbacks only ever inspect such
  values with \<open>?.\<close>, \<open>||\<close>, \<open>&&\<close> and \<open>if\<close>, none of which tells them apart. On typed
  data the nullish value is \<open>None\<close>; on untyped data it is \<open>Nullish\<close>.
\<close>

subsection \<open>JavaScript values and strings\<close>

datatype jsval =
    Nullish
  | JBool bool
  | JNum int
  | JStr string
  | JArr "jsval list"
  | JObj "(string \<times> jsval) list"

text \<open>An open object (the token, the user object of a session): property name to value.\<close>

type_synonym jsobj = "string \<rightharpoonup> jsval"

text \<open>Reading a property: an absent property reads as \<open>undefined\<close>.\<close>

definition get_prop :: "jsobj \<Rightarrow> string \<Rightarrow> jsval" where
  "get_prop obj k = (case obj k of None \<Rightarrow> Nullish | Some v \<Rightarrow> v)"

text \<open>\<open>Object.assign(target, source)\<close>: every own property of the source is written to the
  target; properties of the target that the source lacks stay.\<close>

definition Object_assign :: "jsobj \<Rightarrow> jsobj \<Rightarrow> jsobj" where
  "Object_assign target source = target ++ source"

text \<open>A JavaScript string is held as the bytes of its UTF-8 form: a character below U+0080
  is one \<open>char\<close> with the top bit clear, every other character a run of \<open>char\<close>s with the top
  bit set. So a string is pure ASCII exactly when \<open>is_ascii\<close> holds of all its \<open>char\<close>s.\<close>

definition is_ascii :: "char \<Rightarrow> bool" where
  "is_ascii c = (\<not> digit7 c)"

text \<open>The capitals \<open>A\<close> (65) to \<open>Z\<close> (90), and the small letter 32 places after a capital.\<close>

definition is_capital :: "char \<Rightarrow> bool" where
  "is_capital c = (65 \<le> (of_char c :: nat) \<and> (of_char c :: nat) \<le> 90)"

definition lower_char :: "char \<Rightarrow> char" where
  "lower_char c = (if is_capital c then char_of (of_char c + 32 :: nat) else c)"

text \<open>\<open>Boolean(x)\<close> on a \<open>string | undefined\<close>: \<open>undefined\<close> and the empty string are falsy.\<close>

definition Boolean :: "string option \<Rightarrow> bool" where
  "Boolean x = (case x of None \<Rightarrow> False | Some s \<Rightarrow> s \<noteq> [])"

subsection \<open>The admin allow-list\<close>

text \<open>What \<open>isAdminEmail\<close> and the callbacks take from the process they run in: the two
  entries of \<open>process.env\<close> that \<open>isAdminEmail\<close> reads, and the engine's lower-casing of the
  strings that are not pure ASCII (the Unicode case tables are the engine's, not the
  repository's, so that part of \<open>String.prototype.toLowerCase\<close> is a parameter).\<close>

record env =
  ADMIN_EMAIL_1 :: "string option"
  ADMIN_EMAIL_2 :: "string option"
  unicodeLower :: "string \<Rightarrow> string"

text \<open>\<open>String.prototype.toLowerCase\<close>: in a pure ASCII string the capitals become small
  letters and every other character is kept; of any other string the result is the
  engine's. Every character has a lower case of at least one character, so lower-casing
  never empties a string: an empty answer of the parameter is not taken.\<close>

definition toLowerCase :: "env \<Rightarrow> string \<Rightarrow> string" where
  "toLowerCase e s =
     (if list_all is_ascii s then map lower_char s
      else if unicodeLower e s = [] then s
      else unicodeLower e s)"

definition isAdminEmail :: "env \<Rightarrow> string \<Rightarrow> bool" where
  "isAdminEmail e email =
     (let adminEmails =
            map (map_option (toLowerCase e)) (filter Boolean [ADMIN_EMAIL_1 e, ADMIN_EMAIL_2 e])
      in Some (toLowerCase e email) \<in> set adminEmails)"

text \<open>Equality of strings up to the case of ASCII letters, said without
  \<open>toLowerCase\<close>: the strings have the same length and at each place the two characters are
  the same, or one is a capital and the other the small letter 32 places after it.\<close>

definition same_letter :: "char \<Rightarrow> char \<Rightarrow> bool" where
  "same_letter c d =
     (c = d \<or> (is_capital c \<and> (of_char d :: nat) = of_char c + 32)
            \<or> (is_capital d \<and> (of_char c :: nat) = of_char d + 32))"

definition equal_ignoring_case :: "string \<Rightarrow> string \<Rightarrow> bool" where
  "equal_ignoring_case s t = list_all2 same_letter s t"

subsection \<open>Identities and stored records\<close>

text \<open>The \<open>user\<close> and \<open>account\<close> arguments that NextAuth hands to the callbacks.\<close>

record oauth_user =
  user_id :: string
  name :: "string option"
  email :: "string option"
  image :: "string option"

record account =
  provider :: string

record user_stats =
  contributionPoints :: int
  feedbackSubmitted :: int
  bugsReported :: int
  featuresProposed :: int
  dataCorrections :: int
  correctionsAccepted :: int

record user_preferences =
  emailNotifications :: bool
  publicProfile :: bool
  showContributions :: bool

text \<open>A document of the \<open>User\<close> collection, with the fields this file writes. Its \<open>_id\<close> is
  the key under which the collection holds it.\<close>

record db_user =
  email :: "string option"
  displayName :: "string option"
  username :: string
  image :: "string option"
  vrHeadset :: "string option"
  level :: int
  rank :: string
  badges :: "string list"
  stats :: user_stats
  roles :: "string list option"
  preferences :: user_preferences
  isActive :: bool
  isBanned :: bool
  lastLoginAt :: nat

subsection \<open>The user store\<close>

text \<open>
  The \<open>User\<close> model, \<open>connectDB\<close> and the username generator are imported from
  \<open>@/models/User\<close>, \<open>@/lib/mongodb\<close> and \<open>@/lib/auth/username\<close>, which are not part of the
  source at hand. The spec gives their interface (section 6): \<open>findOne(email)\<close>,
  \<open>findById(id)\<close>, \<open>save()\<close> (insert or update), \<open>generate(profile)\<close> and
  \<open>ensureUnique(candidate)\<close>; any store access may fail (sections 4.1 and 7).
\<close>

text \<open>Modelled from the spec: the accesses to the store that the callbacks make.\<close>

datatype store_op =
    ConnectDB
  | FindOne "string option"
  | FindById jsval
  | EnsureUniqueUsername string
  | Save string

text \<open>Modelled from the spec: an access either is done or raises.\<close>

datatype store_event = Done store_op | Raised store_op

fun event_op :: "store_event \<Rightarrow> store_op" where
  "event_op (Done op) = op"
| "event_op (Raised op) = op"

datatype error = StoreError store_op | DuplicateKey string | UsernameError

text \<open>Modelled from the spec: the collection, an association list from \<open>_id\<close> to document in
  insertion order; the trace of the accesses made so far; and the faults to come, one flag
  per access, \<open>True\<close> for an access that raises (with no flag left, an access is done).\<close>

record world =
  docs :: "(string \<times> db_user) list"
  trace :: "store_event list"
  faults :: "bool list"

text \<open>Modelled from the spec: one access. It is recorded in the trace and takes the next
  fault flag.\<close>

definition attempt :: "store_op \<Rightarrow> world \<Rightarrow> (error + unit) \<times> world" where
  "attempt op w =
     (case faults w of
        [] \<Rightarrow> (Inr (), w\<lparr>trace := trace w @ [Done op]\<rparr>)
      | f # fs \<Rightarrow>
          if f then (Inl (StoreError op), w\<lparr>trace := trace w @ [Raised op], faults := fs\<rparr>)
          else (Inr (), w\<lparr>trace := trace w @ [Done op], faults := fs\<rparr>))"

text \<open>Modelled from the spec: \<open>connectDB()\<close> of \<open>@/lib/mongodb\<close>.\<close>

definition connectDB :: "world \<Rightarrow> (error + unit) \<times> world" where
  "connectDB w = attempt ConnectDB w"

text \<open>Modelled from the spec: \<open>User.findOne({ email })\<close>, the first document with that email,
  if any.\<close>

definition lookup_email ::
  "(string \<times> db_user) list \<Rightarrow> string option \<Rightarrow> (string \<times> db_user) option" where
  "lookup_email ds e = find (\<lambda>(k, d). db_user.email d = e) ds"

definition findOne :: "string option \<Rightarrow> world \<Rightarrow> (error + (string \<times> db_user) option) \<times> world" where
  "findOne e w =
     (case attempt (FindOne e) w of
        (Inl err, w') \<Rightarrow> (Inl err, w')
      | (Inr _, w') \<Rightarrow> (Inr (lookup_email (docs w') e), w'))"

text \<open>Modelled from the spec: \<open>User.findById(id).select(...).lean()\<close>, the document under
  that \<open>_id\<close>, if any. The callbacks read only the selected fields of it.\<close>

definition lookup_id :: "(string \<times> db_user) list \<Rightarrow> jsval \<Rightarrow> db_user option" where
  "lookup_id ds i = (case i of JStr k \<Rightarrow> map_of ds k | _ \<Rightarrow> None)"

definition findById :: "jsval \<Rightarrow> world \<Rightarrow> (error + db_user option) \<times> world" where
  "findById i w =
     (case attempt (FindById i) w of
        (Inl err, w') \<Rightarrow> (Inl err, w')
      | (Inr _, w') \<Rightarrow> (Inr (lookup_id (docs w') i), w'))"

text \<open>Modelled from the spec: \<open>save()\<close> of a document made by \<open>new User(...)\<close>, an insertion;
  it raises on an \<open>_id\<close> that the collection already holds.\<close>

definition save_new :: "string \<Rightarrow> db_user \<Rightarrow> world \<Rightarrow> (error + string) \<times> world" where
  "save_new k d w =
     (if k \<in> fst ` set (docs w)
      then (Inl (DuplicateKey k), w\<lparr>trace := trace w @ [Raised (Save k)]\<rparr>)
      else (case attempt (Save k) w of
              (Inl err, w') \<Rightarrow> (Inl err, w')
            | (Inr _, w') \<Rightarrow> (Inr k, w'\<lparr>docs := docs w' @ [(k, d)]\<rparr>)))"

text \<open>Modelled from the spec: \<open>save()\<close> of a document that was read from the collection, an
  update in place.\<close>

definition save :: "string \<Rightarrow> db_user \<Rightarrow> world \<Rightarrow> (error + unit) \<times> world" where
  "save k d w =
     (case attempt (Save k) w of
        (Inl err, w') \<Rightarrow> (Inl err, w')
      | (Inr _, w') \<Rightarrow> (Inr (), w'\<lparr>docs := AList.update k d (docs w')\<rparr>))"

text \<open>Modelled from the spec: what else a callback takes from its surroundings, namely the
  clock (\<open>new Date()\<close>), the \<open>_id\<close> that \<open>new User(...)\<close> allocates, and the two functions of the
  username generator, \<open>generateUsername\<close> (which may raise) and the name that
  \<open>ensureUniqueUsername\<close> settles on.\<close>

record runtime =
  now :: nat
  new_oid :: string
  generateUsername :: "oauth_user \<Rightarrow> error + string"
  uniqueUsername :: "(string \<times> db_user) list \<Rightarrow> string \<Rightarrow> string"

text \<open>Modelled from the spec: \<open>ensureUniqueUsername(base)\<close> of \<open>@/lib/auth/username\<close>, an
  access to the store.\<close>

definition ensureUniqueUsername ::
  "runtime \<Rightarrow> string \<Rightarrow> world \<Rightarrow> (error + string) \<times> world" where
  "ensureUniqueUsername rt base w =
     (case attempt (EnsureUniqueUsername base) w of
        (Inl err, w') \<Rightarrow> (Inl err, w')
      | (Inr _, w') \<Rightarrow> (Inr (uniqueUsername rt (docs w') base), w'))"

subsection \<open>The \<open>signIn\<close> callback\<close>

text \<open>Lines 134--160: the document that \<open>new User({...})\<close> builds for an unseen email.\<close>

definition newUser :: "env \<Rightarrow> runtime \<Rightarrow> oauth_user \<Rightarrow> string \<Rightarrow> db_user" where
  "newUser e rt user uname =
     \<lparr> email = map_option (toLowerCase e) (oauth_user.email user),
       displayName = name user,
       username = uname,
       image = oauth_user.image user,
       vrHeadset = None,
       level = 1,
       rank = (if isAdminEmail e (case oauth_user.email user of None \<Rightarrow> [] | Some a \<Rightarrow> a)
               then ''elite'' else ''recruit''),
       badges = [],
       stats = \<lparr> contributionPoints = 0, feedbackSubmitted = 0, bugsReported = 0,
                 featuresProposed = 0, dataCorrections = 0, correctionsAccepted = 0 \<rparr>,
       roles = (if isAdminEmail e (case oauth_user.email user of None \<Rightarrow> [] | Some a \<Rightarrow> a)
                then Some [''user'', ''admin''] else Some [''user'']),
       preferences = \<lparr> emailNotifications = False, publicProfile = True,
                       showContributions = True \<rparr>,
       isActive = True,
       isBanned = False,
       lastLoginAt = now rt \<rparr>"

text \<open>\<open>dbUser.roles?.includes('admin')\<close> and \<open>dbUser.roles || []\<close>.\<close>

definition roles_includes :: "db_user \<Rightarrow> string \<Rightarrow> bool" where
  "roles_includes d r = (case roles d of None \<Rightarrow> False | Some rs \<Rightarrow> r \<in> set rs)"

definition roles_or_empty :: "db_user \<Rightarrow> string list" where
  "roles_or_empty d = (case roles d of None \<Rightarrow> [] | Some rs \<Rightarrow> rs)"

text \<open>Lines 172--185: what the callback does to the document it found, and the value of
  \<open>needsUpdate\<close> when it reaches the test of line 187.\<close>

definition reconcile :: "env \<Rightarrow> runtime \<Rightarrow> oauth_user \<Rightarrow> db_user \<Rightarrow> db_user \<times> bool" where
  "reconcile e rt user dbUser =
     (let needsUpdate = False;
          (dbUser, needsUpdate) =
            (if Boolean (oauth_user.email user) \<and>
                isAdminEmail e (case oauth_user.email user of None \<Rightarrow> [] | Some a \<Rightarrow> a)
             then (if \<not> roles_includes dbUser ''admin''
                   then (dbUser\<lparr>roles := Some (roles_or_empty dbUser @ [''admin'']),
                                rank := ''elite''\<rparr>, True)
                   else (dbUser, needsUpdate))
             else (dbUser, needsUpdate));
          dbUser = dbUser\<lparr>lastLoginAt := now rt\<rparr>;
          needsUpdate = True
      in (dbUser, needsUpdate))"

text \<open>Lines 124--194: the body of the \<open>try\<close> block. \<open>Inl\<close> is a raised error; the \<open>user\<close>
  object comes back with the \<open>id\<close> the callback wrote into it.\<close>

definition signIn_try ::
  "env \<Rightarrow> runtime \<Rightarrow> oauth_user \<Rightarrow> world \<Rightarrow> (error + bool \<times> oauth_user) \<times> world" where
  "signIn_try e rt user w0 =
     (case connectDB w0 of
        (Inl err, w1) \<Rightarrow> (Inl err, w1)
      | (Inr _, w1) \<Rightarrow>
     (case findOne (map_option (toLowerCase e) (oauth_user.email user)) w1 of
        (Inl err, w2) \<Rightarrow> (Inl err, w2)
      | (Inr None, w2) \<Rightarrow>
          (case generateUsername rt user of
             Inl err \<Rightarrow> (Inl err, w2)
           | Inr baseUsername \<Rightarrow>
          (case ensureUniqueUsername rt baseUsername w2 of
             (Inl err, w3) \<Rightarrow> (Inl err, w3)
           | (Inr uname, w3) \<Rightarrow>
          (case save_new (new_oid rt) (newUser e rt user uname) w3 of
             (Inl err, w4) \<Rightarrow> (Inl err, w4)
           | (Inr savedId, w4) \<Rightarrow> (Inr (True, user\<lparr>user_id := savedId\<rparr>), w4))))
      | (Inr (Some (k, dbUser)), w2) \<Rightarrow>
          (case reconcile e rt user dbUser of (dbUser', needsUpdate) \<Rightarrow>
          (case (if needsUpdate then save k dbUser' w2 else (Inr (), w2)) of
             (Inl err, w3) \<Rightarrow> (Inl err, w3)
           | (Inr _, w3) \<Rightarrow> (Inr (True, user\<lparr>user_id := k\<rparr>), w3)))))"

text \<open>Lines 121--201. The \<open>catch\<close> turns every error of the block into the result \<open>false\<close>;
  any provider other than the two is let through without touching the store.\<close>

definition signIn ::
  "env \<Rightarrow> runtime \<Rightarrow> oauth_user \<Rightarrow> account option \<Rightarrow> world \<Rightarrow> (bool \<times> oauth_user) \<times> world" where
  "signIn e rt user acct w =
     (if map_option provider acct = Some ''discord'' \<or> map_option provider acct = Some ''google''
      then (case signIn_try e rt user w of
              (Inl err, w') \<Rightarrow> ((False, user), w')
            | (Inr r, w') \<Rightarrow> (r, w'))
      else ((True, user), w))"

subsection \<open>The \<open>jwt\<close> callback\<close>

text \<open>Values of the stored record as the token holds them.\<close>

definition js_string :: "string option \<Rightarrow> jsval" where
  "js_string x = (case x of None \<Rightarrow> Nullish | Some s \<Rightarrow> JStr s)"

text \<open>Lines 214--219 and again 232--237: the six assignments from the record to the token,
  \<open>token.roles\<close> being \<open>dbUser.roles || ["user"]\<close>.\<close>

definition project :: "db_user \<Rightarrow> jsobj \<Rightarrow> jsobj" where
  "project dbUser token =
     token(''displayName'' \<mapsto> js_string (displayName dbUser),
           ''username'' \<mapsto> JStr (username dbUser),
           ''image'' \<mapsto> js_string (db_user.image dbUser),
           ''rank'' \<mapsto> JStr (rank dbUser),
           ''roles'' \<mapsto> (case roles dbUser of
                             None \<Rightarrow> JArr [JStr ''user'']
                           | Some rs \<Rightarrow> JArr (map JStr rs)),
           ''isBanned'' \<mapsto> JBool (isBanned dbUser))"

text \<open>Lines 205--221: initial sign-in, when both \<open>user\<close> and \<open>account\<close> are there.\<close>

definition jwt_initial ::
  "jsobj \<Rightarrow> oauth_user option \<Rightarrow> account option \<Rightarrow> world \<Rightarrow> (error + jsobj) \<times> world" where
  "jwt_initial token user acct w0 =
     (case (user, acct) of
        (Some u, Some a) \<Rightarrow>
          (case connectDB w0 of
             (Inl err, w1) \<Rightarrow> (Inl err, w1)
           | (Inr _, w1) \<Rightarrow>
          (case findById (JStr (user_id u)) w1 of
             (Inl err, w2) \<Rightarrow> (Inl err, w2)
           | (Inr None, w2) \<Rightarrow> (Inr token, w2)
           | (Inr (Some dbUser), w2) \<Rightarrow>
               (Inr (project dbUser (token(''id'' \<mapsto> JStr (user_id u)))), w2)))
      | _ \<Rightarrow> (Inr token, w0))"

text \<open>Lines 224--244: the refresh, when \<open>trigger === "update"\<close>.\<close>

definition jwt_refresh ::
  "jsobj \<Rightarrow> string option \<Rightarrow> jsobj option \<Rightarrow> world \<Rightarrow> (error + jsobj) \<times> world" where
  "jwt_refresh token trigger session w0 =
     (if trigger = Some ''update'' then
        (case connectDB w0 of
           (Inl err, w1) \<Rightarrow> (Inl err, w1)
         | (Inr _, w1) \<Rightarrow>
        (case findById (get_prop token ''id'') w1 of
           (Inl err, w2) \<Rightarrow> (Inl err, w2)
         | (Inr found, w2) \<Rightarrow>
             (let token = (case found of None \<Rightarrow> token | Some dbUser \<Rightarrow> project dbUser token);
                  token = (case session of None \<Rightarrow> token | Some s \<Rightarrow> Object_assign token s)
              in (Inr token, w2))))
      else (Inr token, w0))"

text \<open>Lines 203--247. There is no \<open>try\<close> here: an error of the store leaves the callback.
  The \<open>session\<close> argument is the payload of a client's update call, an object or nothing.\<close>

definition jwt ::
  "jsobj \<Rightarrow> oauth_user option \<Rightarrow> account option \<Rightarrow> string option \<Rightarrow> jsobj option \<Rightarrow>
   world \<Rightarrow> (error + jsobj) \<times> world" where
  "jwt token user acct trigger session w0 =
     (case jwt_initial token user acct w0 of
        (Inl err, w1) \<Rightarrow> (Inl err, w1)
      | (Inr token', w1) \<Rightarrow> jwt_refresh token' trigger session w1)"

subsection \<open>The \<open>session\<close> callback\<close>

text \<open>The outward session object: its \<open>user\<close> object, when it has one, and its other
  properties (\<open>expires\<close> and whatever else the framework put there).\<close>

record session_obj =
  user :: "jsobj option"
  others :: jsobj

text \<open>Lines 250--262.\<close>

definition session :: "session_obj option \<Rightarrow> jsobj option \<Rightarrow> session_obj option" where
  "session s token =
     (case (s, token) of
        (Some so, Some t) \<Rightarrow>
          (case user so of
             None \<Rightarrow> s
           | Some u \<Rightarrow>
               Some (so\<lparr>user := Some (u(''id'' \<mapsto> get_prop t ''id'',
                                          ''username'' \<mapsto> get_prop t ''username'',
                                          ''displayName'' \<mapsto> get_prop t ''displayName'',
                                          ''image'' \<mapsto> get_prop t ''image'',
                                          ''rank'' \<mapsto> get_prop t ''rank'',
                                          ''roles'' \<mapsto> get_prop t ''roles'',
                                          ''isBanned'' \<mapsto> get_prop t ''isBanned''))\<rparr>))
      | _ \<Rightarrow> s)"

subsection \<open>Reading a trace\<close>

text \<open>The events a callback added to the trace, and the saves among them.\<close>

definition events_since :: "world \<Rightarrow> world \<Rightarrow> store_event list" where
  "events_since w w' = drop (length (trace w)) (trace w')"

fun is_save :: "store_event \<Rightarrow> bool" where
  "is_save (Done (Save k)) = True"
| "is_save (Raised (Save k)) = True"
| "is_save ev = False"

definition saves :: "store_event list \<Rightarrow> nat" where
  "saves evs = length (filter is_save evs)"

text \<open>The properties among \<open>ks\<close> on which two objects differ.\<close>

definition changed_fields :: "string list \<Rightarrow> jsobj \<Rightarrow> jsobj \<Rightarrow> string list" where
  "changed_fields ks obj obj' = filter (\<lambda>k. obj k \<noteq> obj' k) ks"

subsection \<open>Sample inputs\<close>

text \<open>A sample of the engine's lower-casing: it folds the ASCII capitals and the capital
  E with acute (U+00C9, bytes C3 89) to the small one (U+00E9, bytes C3 A9).\<close>

fun sample_unicodeLower :: "string \<Rightarrow> string" where
  "sample_unicodeLower (c # d # cs) =
     (if c = CHR 0xC3 \<and> d = CHR 0x89 then c # CHR 0xA9 # sample_unicodeLower cs
      else lower_char c # sample_unicodeLower (d # cs))"
| "sample_unicodeLower [c] = [lower_char c]"
| "sample_unicodeLower [] = []"

definition sample_env :: env where
  "sample_env =
     \<lparr>ADMIN_EMAIL_1 = Some ''Boss@X.com'', ADMIN_EMAIL_2 = None,
      unicodeLower = sample_unicodeLower\<rparr>"

definition no_admin_env :: env where
  "no_admin_env =
     \<lparr>ADMIN_EMAIL_1 = None, ADMIN_EMAIL_2 = None, unicodeLower = sample_unicodeLower\<rparr>"

definition sample_runtime :: runtime where
  "sample_runtime =
     \<lparr>now = 100, new_oid = ''id7'', generateUsername = (\<lambda>u. Inr ''neo''),
      uniqueUsername = (\<lambda>ds base. base)\<rparr>"

definition boss :: oauth_user where
  "boss = \<lparr>user_id = ''g-1'', name = Some ''Neo'', email = Some ''BOSS@x.com'', image = None\<rparr>"

text \<open>An identity whose email is not pure ASCII: \<open>ECOLE@X.COM\<close> with U+00C9 for the first
  letter, and the same email in small letters, U+00E9 first.\<close>

definition ECOLE :: string where
  "ECOLE = CHR 0xC3 # CHR 0x89 # ''COLE@X.COM''"

definition ecole :: string where
  "ecole = CHR 0xC3 # CHR 0xA9 # ''cole@x.com''"

definition pupil :: oauth_user where
  "pupil = \<lparr>user_id = ''d-2'', name = None, email = Some ECOLE, image = Some ''p.png''\<rparr>"

definition google :: "account option" where
  "google = Some \<lparr>provider = ''google''\<rparr>"

definition boss_doc :: "string list option \<Rightarrow> string \<Rightarrow> nat \<Rightarrow> db_user" where
  "boss_doc rs rk t =
     \<lparr>email = Some ''boss@x.com'', displayName = Some ''Neo'', username = ''neo'',
      image = None, vrHeadset = None, level = 3, rank = rk, badges = [''early''],
      stats = \<lparr>contributionPoints = 5, feedbackSubmitted = 1, bugsReported = 0,
               featuresProposed = 0, dataCorrections = 2, correctionsAccepted = 1\<rparr>,
      roles = rs,
      preferences = \<lparr>emailNotifications = True, publicProfile = True,
                     showContributions = False\<rparr>,
      isActive = True, isBanned = False, lastLoginAt = t\<rparr>"

text \<open>A token issued before the record \<open>id1\<close> was renamed, promoted and unbanned, and the
  collection that holds the record as it is now.\<close>

definition stale_token :: jsobj where
  "stale_token =
     [''id'' \<mapsto> JStr ''id1'', ''sub'' \<mapsto> JStr ''g-1'', ''displayName'' \<mapsto> JStr ''Old'',
      ''username'' \<mapsto> JStr ''old'', ''image'' \<mapsto> JStr ''a.png'', ''rank'' \<mapsto> JStr ''recruit'',
      ''roles'' \<mapsto> JArr [JStr ''user''], ''isBanned'' \<mapsto> JBool True]"

definition boss_world :: world where
  "boss_world =
     \<lparr>docs = [(''id1'', boss_doc (Some [''user'', ''admin'']) ''elite'' 100)], trace = [],
      faults = []\<rparr>"

section \<open>Properties\<close>

subsection \<open>Lower-casing\<close>

lemma of_char_lower: "is_capital c \<Longrightarrow> (of_char (lower_char c) :: nat) = of_char c + 32"
  by (simp add: lower_char_def is_capital_def)

lemma lower_char_eq_iff: "lower_char c = lower_char d \<longleftrightarrow> same_letter c d"
proof -
  have "lower_char c = lower_char d \<longleftrightarrow>
          (of_char (lower_char c) :: nat) = of_char (lower_char d)"
    by simp
  also have "\<dots> \<longleftrightarrow> same_letter c d"
    using of_char_lower[of c] of_char_lower[of d]
    by (cases "is_capital c"; cases "is_capital d")
       (auto simp: same_letter_def lower_char_def is_capital_def)
  finally show ?thesis .
qed

lemma lower_char_not_capital: "\<not> is_capital (lower_char c)"
  using of_char_lower[of c] by (cases "is_capital c") (auto simp: is_capital_def lower_char_def)

lemma lower_char_idem: "lower_char (lower_char c) = lower_char c"
  using lower_char_not_capital[of c] by (simp add: lower_char_def)

lemma same_letter_lower: "same_letter c (lower_char c)"
  using lower_char_eq_iff[of c "lower_char c"] by (simp add: lower_char_idem)

lemma map_lower_eq_iff: "map lower_char s = map lower_char t \<longleftrightarrow> equal_ignoring_case s t"
  unfolding equal_ignoring_case_def
proof (induction s arbitrary: t)
  case Nil
  then show ?case by simp
next
  case (Cons c s)
  then show ?case by (cases t) (simp_all add: lower_char_eq_iff)
qed

lemma toLowerCase_ascii: "list_all is_ascii s \<Longrightarrow> toLowerCase e s = map lower_char s"
  by (simp add: toLowerCase_def)

lemma toLowerCase_ascii_eq_iff:
  "list_all is_ascii s \<Longrightarrow> list_all is_ascii t \<Longrightarrow>
   toLowerCase e s = toLowerCase e t \<longleftrightarrow> equal_ignoring_case s t"
  by (simp add: toLowerCase_ascii map_lower_eq_iff)

lemma toLowerCase_ascii_small:
  assumes "list_all is_ascii s"
  shows "equal_ignoring_case s (toLowerCase e s) \<and>
         list_all (\<lambda>c. \<not> is_capital c) (toLowerCase e s)"
  using assms
  by (simp add: toLowerCase_ascii equal_ignoring_case_def list_all2_map2 list.rel_refl
        same_letter_lower list_all_iff lower_char_not_capital)

lemma toLowerCase_Nil_iff: "toLowerCase e s = [] \<longleftrightarrow> s = []"
  by (auto simp: toLowerCase_def)

subsection \<open>The admin allow-list\<close>

lemma isAdminEmail_iff:
  "isAdminEmail e addr \<longleftrightarrow>
     (\<exists>a. (ADMIN_EMAIL_1 e = Some a \<or> ADMIN_EMAIL_2 e = Some a) \<and> a \<noteq> [] \<and>
          toLowerCase e addr = toLowerCase e a)"
  by (cases "ADMIN_EMAIL_1 e"; cases "ADMIN_EMAIL_2 e")
     (auto simp: isAdminEmail_def Boolean_def)

lemma isAdminEmail_nonempty: "isAdminEmail e addr \<Longrightarrow> addr \<noteq> []"
proof
  assume listed: "isAdminEmail e addr" and empty: "addr = []"
  then obtain a where "a \<noteq> []" and "toLowerCase e [] = toLowerCase e a"
    unfolding isAdminEmail_iff by blast
  then show False
    using toLowerCase_Nil_iff[of e a] toLowerCase_Nil_iff[of e "[]"] by simp
qed

text \<open>
  C9. With neither \<open>ADMIN_EMAIL_1\<close> nor \<open>ADMIN_EMAIL_2\<close> configured, \<open>isAdminEmail\<close> is false
  for every email. In general \<open>isAdminEmail\<close> holds of an email exactly when its lower-casing
  equals the lower-casing of a configured entry that is not the empty string. Where the
  email and the configured entries are pure ASCII this is equality up to the case of
  letters, said without the lower-casing function: \<open>isAdminEmail\<close> holds exactly when some
  configured, non-empty entry has the length of the email and agrees with it at every
  place up to capital or small letter.
\<close>

theorem isAdminEmail_case_insensitive:
  "(ADMIN_EMAIL_1 e = None \<and> ADMIN_EMAIL_2 e = None \<longrightarrow> \<not> isAdminEmail e addr) \<and>
   (isAdminEmail e addr \<longleftrightarrow>
     (\<exists>a. (ADMIN_EMAIL_1 e = Some a \<or> ADMIN_EMAIL_2 e = Some a) \<and> a \<noteq> [] \<and>
          toLowerCase e addr = toLowerCase e a)) \<and>
   (list_all is_ascii addr \<and>
    (\<forall>a. ADMIN_EMAIL_1 e = Some a \<or> ADMIN_EMAIL_2 e = Some a \<longrightarrow> list_all is_ascii a) \<longrightarrow>
      (isAdminEmail e addr \<longleftrightarrow>
        (\<exists>a. (ADMIN_EMAIL_1 e = Some a \<or> ADMIN_EMAIL_2 e = Some a) \<and> a \<noteq> [] \<and>
             equal_ignoring_case addr a)))"
proof -
  have "ADMIN_EMAIL_1 e = None \<and> ADMIN_EMAIL_2 e = None \<longrightarrow> \<not> isAdminEmail e addr"
    by (simp add: isAdminEmail_iff)
  moreover have "list_all is_ascii addr \<and>
    (\<forall>a. ADMIN_EMAIL_1 e = Some a \<or> ADMIN_EMAIL_2 e = Some a \<longrightarrow> list_all is_ascii a) \<longrightarrow>
      (isAdminEmail e addr \<longleftrightarrow>
        (\<exists>a. (ADMIN_EMAIL_1 e = Some a \<or> ADMIN_EMAIL_2 e = Some a) \<and> a \<noteq> [] \<and>
             equal_ignoring_case addr a))"
    unfolding isAdminEmail_iff using toLowerCase_ascii_eq_iff[of addr _ e] by blast
  ultimately show ?thesis
    using isAdminEmail_iff[of e addr] by blast
qed

lemma sample_env_entries:
  "(ADMIN_EMAIL_1 sample_env = Some a \<or> ADMIN_EMAIL_2 sample_env = Some a) \<longleftrightarrow> a = ''Boss@X.com''"
  by (auto simp: sample_env_def)

theorem isAdminEmail_case_insensitive_witness:
  "isAdminEmail sample_env ''boss@x.COM'' \<and>
   equal_ignoring_case ''boss@x.COM'' ''Boss@X.com'' \<and>
   \<not> isAdminEmail sample_env ''bosz@x.com'' \<and>
   \<not> equal_ignoring_case ''bosz@x.com'' ''Boss@X.com'' \<and>
   \<not> isAdminEmail sample_env ''boss@x.co'' \<and>
   \<not> isAdminEmail no_admin_env ''boss@x.com'' \<and>
   \<not> isAdminEmail (sample_env\<lparr>ADMIN_EMAIL_2 := Some []\<rparr>) [] \<and>
   toLowerCase sample_env ''THE.QUICK.BROWN.FOX@JUMPS.OVER.LAZY.DOGS'' =
     ''the.quick.brown.fox@jumps.over.lazy.dogs'' \<and>
   toLowerCase sample_env ECOLE = ecole \<and>
   isAdminEmail (sample_env\<lparr>ADMIN_EMAIL_2 := Some ecole\<rparr>) ECOLE"
proof -
  have eq: "equal_ignoring_case ''boss@x.COM'' ''Boss@X.com''"
    by (simp add: equal_ignoring_case_def same_letter_def is_capital_def)
  have ne: "\<not> equal_ignoring_case ''bosz@x.com'' ''Boss@X.com''"
    by (simp add: equal_ignoring_case_def same_letter_def is_capital_def)
  have len: "\<not> equal_ignoring_case ''boss@x.co'' ''Boss@X.com''"
    by (simp add: equal_ignoring_case_def)
  have cfg: "\<forall>a. ADMIN_EMAIL_1 sample_env = Some a \<or> ADMIN_EMAIL_2 sample_env = Some a
               \<longrightarrow> list_all is_ascii a"
    unfolding sample_env_entries by (simp add: is_ascii_def)
  have a1: "list_all is_ascii ''boss@x.COM''" and a2: "list_all is_ascii ''bosz@x.com''"
    and a3: "list_all is_ascii ''boss@x.co''"
    by (simp_all add: is_ascii_def)
  note ascii_case = isAdminEmail_case_insensitive
    [of sample_env, THEN conjunct2, THEN conjunct2, rule_format, OF conjI, OF _ cfg]
  have "isAdminEmail sample_env ''boss@x.COM''"
    unfolding ascii_case[OF a1] sample_env_entries using eq by simp
  moreover have "\<not> isAdminEmail sample_env ''bosz@x.com''"
    unfolding ascii_case[OF a2] sample_env_entries using ne by simp
  moreover have "\<not> isAdminEmail sample_env ''boss@x.co''"
    unfolding ascii_case[OF a3] sample_env_entries using len by simp
  moreover have "\<not> isAdminEmail no_admin_env ''boss@x.com''"
    using isAdminEmail_case_insensitive [of no_admin_env "''boss@x.com''", THEN conjunct1]
    by (simp add: no_admin_env_def)
  moreover have "\<not> isAdminEmail (sample_env\<lparr>ADMIN_EMAIL_2 := Some []\<rparr>) []"
    using isAdminEmail_case_insensitive
            [of "sample_env\<lparr>ADMIN_EMAIL_2 := Some []\<rparr>" "[]", THEN conjunct2, THEN conjunct1]
    by (auto simp: sample_env_def toLowerCase_def is_ascii_def)
  moreover have "toLowerCase sample_env ''THE.QUICK.BROWN.FOX@JUMPS.OVER.LAZY.DOGS'' =
                   ''the.quick.brown.fox@jumps.over.lazy.dogs''"
    by (simp add: toLowerCase_def is_ascii_def lower_char_def is_capital_def char_of_def
          bit_Suc_0_iff)
  moreover have "toLowerCase sample_env ECOLE = ecole"
    by (simp add: toLowerCase_def ECOLE_def ecole_def sample_env_def is_ascii_def
          lower_char_def is_capital_def char_of_def bit_Suc_0_iff)
  moreover have "isAdminEmail (sample_env\<lparr>ADMIN_EMAIL_2 := Some ecole\<rparr>) ECOLE"
    by (simp add: isAdminEmail_def Boolean_def toLowerCase_def ECOLE_def ecole_def
          sample_env_def is_ascii_def lower_char_def is_capital_def char_of_def bit_Suc_0_iff)
  ultimately show ?thesis
    using eq ne by blast
qed

subsection \<open>The store operations and the reconciliation step\<close>

lemma reconcile_needsUpdate: "snd (reconcile e rt u d) = True"
  by (simp add: reconcile_def Let_def split: prod.splits)

lemma reconcile_email: "db_user.email (fst (reconcile e rt u d)) = db_user.email d"
  by (simp add: reconcile_def Let_def)

lemma reconcile_lastLoginAt: "lastLoginAt (fst (reconcile e rt u d)) = now rt"
  by (simp add: reconcile_def Let_def)

lemma reconcile_roles:
  "roles (fst (reconcile e rt u d)) =
     (if Boolean (oauth_user.email u) \<and>
         isAdminEmail e (case oauth_user.email u of None \<Rightarrow> [] | Some a \<Rightarrow> a) \<and>
         \<not> roles_includes d ''admin''
      then Some (roles_or_empty d @ [''admin'']) else roles d)"
  by (simp add: reconcile_def Let_def)

lemma reconcile_rank:
  "rank (fst (reconcile e rt u d)) =
     (if Boolean (oauth_user.email u) \<and>
         isAdminEmail e (case oauth_user.email u of None \<Rightarrow> [] | Some a \<Rightarrow> a) \<and>
         \<not> roles_includes d ''admin''
      then ''elite'' else rank d)"
  by (simp add: reconcile_def Let_def)

lemma lookup_email_hit: "lookup_email ds x = Some (k, d) \<Longrightarrow> db_user.email d = x"
  by (auto simp: lookup_email_def find_Some_iff)

lemma lookup_email_update:
  "lookup_email ds x = Some (k, d) \<Longrightarrow> db_user.email d' = x \<Longrightarrow>
   lookup_email (AList.update k d' ds) x = Some (k, d')"
  by (induction ds) (auto simp: lookup_email_def split: if_splits)

lemma lookup_email_reconciled:
  assumes "lookup_email ds x = Some (k, d)"
  shows "lookup_email (AList.update k (fst (reconcile e rt u d)) ds) x =
           Some (k, fst (reconcile e rt u d))"
  using assms lookup_email_hit[OF assms] by (simp add: lookup_email_update reconcile_email)

subsection \<open>The runs of \<open>signIn\<close>\<close>

text \<open>A run that returns \<open>true\<close> on an unseen email: the four store operations it made, in
  order, and the one document it appended.\<close>

lemma signIn_new_success:
  assumes "map_option provider acct = Some ''discord'' \<or> map_option provider acct = Some ''google''"
    and "lookup_email (docs w) (map_option (toLowerCase e) (oauth_user.email u)) = None"
    and "signIn e rt u acct w = ((True, u'), w')"
  shows "\<exists>base. generateUsername rt u = Inr base \<and>
           docs w' = docs w @ [(new_oid rt, newUser e rt u (uniqueUsername rt (docs w) base))] \<and>
           trace w' = trace w @ [Done ConnectDB,
                                 Done (FindOne (map_option (toLowerCase e) (oauth_user.email u))),
                                 Done (EnsureUniqueUsername base), Done (Save (new_oid rt))] \<and>
           u' = u\<lparr>user_id := new_oid rt\<rparr>"
  using assms
  by (auto simp: signIn_def signIn_try_def connectDB_def findOne_def ensureUniqueUsername_def
        save_new_def attempt_def
      split: list.splits if_splits sum.splits option.splits prod.splits)

text \<open>A run that returns \<open>true\<close> on a known email: three store operations, the last one the
  save of the reconciled document.\<close>

lemma signIn_existing_success:
  assumes "map_option provider acct = Some ''discord'' \<or> map_option provider acct = Some ''google''"
    and "lookup_email (docs w) (map_option (toLowerCase e) (oauth_user.email u)) = Some (k, d)"
    and "signIn e rt u acct w = ((True, u'), w')"
  shows "docs w' = AList.update k (fst (reconcile e rt u d)) (docs w) \<and>
         trace w' = trace w @ [Done ConnectDB,
                               Done (FindOne (map_option (toLowerCase e) (oauth_user.email u))),
                               Done (Save k)] \<and>
         u' = u\<lparr>user_id := k\<rparr>"
  using assms reconcile_needsUpdate[of e rt u d]
  by (auto simp: signIn_def signIn_try_def connectDB_def findOne_def save_def attempt_def
      split: list.splits if_splits sum.splits option.splits prod.splits)

text \<open>What any run, successful or not, can have done to the collection.\<close>

lemma signIn_docs_cases:
  assumes "signIn e rt u acct w = (r, w')"
  shows "docs w' = docs w \<or>
         (\<exists>k d. lookup_email (docs w) (map_option (toLowerCase e) (oauth_user.email u)) = Some (k, d) \<and>
                docs w' = AList.update k (fst (reconcile e rt u d)) (docs w)) \<or>
         (\<exists>d. lookup_email (docs w) (map_option (toLowerCase e) (oauth_user.email u)) = None \<and>
                new_oid rt \<notin> fst ` set (docs w) \<and> docs w' = docs w @ [(new_oid rt, d)])"
  using assms reconcile_needsUpdate[of e rt u]
  by (auto simp: signIn_def signIn_try_def connectDB_def findOne_def save_def attempt_def
        ensureUniqueUsername_def save_new_def
      split: list.splits if_splits sum.splits option.splits prod.splits)

text \<open>The events of any run for one of the two providers: no operation is attempted twice,
  and a raised operation is the last one of a run that returns \<open>false\<close>.\<close>

lemma signIn_events_cases:
  assumes "map_option provider acct = Some ''discord'' \<or> map_option provider acct = Some ''google''"
    and "signIn e rt u acct w = ((ret, u'), w')"
  shows "\<exists>evs. trace w' = trace w @ evs \<and> distinct (map event_op evs) \<and>
           ((ret = True \<and> (\<forall>op. Raised op \<notin> set evs)) \<or>
            (ret = False \<and> u' = u \<and> docs w' = docs w \<and>
             (\<forall>op. Raised op \<in> set evs \<longrightarrow> evs \<noteq> [] \<and> last evs = Raised op)))"
  using assms reconcile_needsUpdate[of e rt u]
  by (auto simp: signIn_def signIn_try_def connectDB_def findOne_def save_def attempt_def
        ensureUniqueUsername_def save_new_def
      split: list.splits if_splits sum.splits option.splits prod.splits)

text \<open>With no fault pending the store answers, and \<open>signIn\<close> returns \<open>true\<close>: on a known email
  always, on an unseen one when the username generator answers and the new \<open>_id\<close> is fresh.
  The keys of the collection stay distinct.\<close>

lemma attempt_quiet:
  assumes "True \<notin> set (faults w)"
  shows "fst (attempt op w) = Inr () \<and> True \<notin> set (faults (snd (attempt op w))) \<and>
         docs (snd (attempt op w)) = docs w"
  using assms by (auto simp: attempt_def split: list.splits)

lemma signIn_existing_returns_true:
  assumes "map_option provider acct = Some ''discord'' \<or> map_option provider acct = Some ''google''"
    and "lookup_email (docs w) (map_option (toLowerCase e) (oauth_user.email u)) = Some (k, d)"
    and "True \<notin> set (faults w)"
  shows "fst (signIn e rt u acct w) = (True, u\<lparr>user_id := k\<rparr>)"
  using assms reconcile_needsUpdate[of e rt u d]
  by (auto simp: signIn_def signIn_try_def connectDB_def findOne_def save_def attempt_def
      split: list.splits if_splits sum.splits option.splits prod.splits)

lemma signIn_new_returns_true:
  assumes "map_option provider acct = Some ''discord'' \<or> map_option provider acct = Some ''google''"
    and "lookup_email (docs w) (map_option (toLowerCase e) (oauth_user.email u)) = None"
    and "True \<notin> set (faults w)"
    and "generateUsername rt u = Inr base"
    and "new_oid rt \<notin> fst ` set (docs w)"
  shows "fst (signIn e rt u acct w) = (True, u\<lparr>user_id := new_oid rt\<rparr>)"
  using assms
  by (auto simp: signIn_def signIn_try_def connectDB_def findOne_def ensureUniqueUsername_def
        save_new_def attempt_def
      split: list.splits if_splits sum.splits option.splits prod.splits)

lemma signIn_keeps_keys_distinct:
  assumes "signIn e rt u acct w = (r, w')" and "distinct (map fst (docs w))"
  shows "distinct (map fst (docs w'))"
  using signIn_docs_cases[OF assms(1)] assms(2)
  by (auto simp: distinct_update)

lemma count_list_distinct: "distinct xs \<Longrightarrow> x \<in> set xs \<Longrightarrow> count_list xs x = 1"
  by (induction xs) auto

text \<open>The definitions that evaluating a callback on concrete inputs unfolds.\<close>

lemmas run_defs = signIn_def signIn_try_def connectDB_def findOne_def ensureUniqueUsername_def
        save_new_def save_def attempt_def lookup_email_def newUser_def reconcile_def
        roles_includes_def roles_or_empty_def isAdminEmail_def Boolean_def
        toLowerCase_def is_ascii_def lower_char_def is_capital_def char_of_def bit_Suc_0_iff
        sample_env_def no_admin_env_def sample_runtime_def boss_def google_def
        boss_doc_def

subsection \<open>Creating the record of an unseen email\<close>

text \<open>
  C1. Let the provider be \<open>discord\<close> or \<open>google\<close> and let no document of the collection carry
  the lower-cased email of the identity. If \<open>signIn\<close> returns \<open>true\<close>, the collection afterwards
  is the collection before followed by exactly one new document, written by the one save of
  the run; its email is the lower-cased email, its level is 1, its badge list is empty, its
  six counters are zero, its preferences are \<open>emailNotifications\<close> false, \<open>publicProfile\<close> true
  and \<open>showContributions\<close> true, it is active and not banned, and its rank and roles are
  \<open>elite\<close> and \<open>[user, admin]\<close> when \<open>isAdminEmail\<close> holds of the email and \<open>recruit\<close> and
  \<open>[user]\<close> otherwise. For a pure ASCII email the stored email is said without the
  lower-casing function as well: it equals the given one up to the case of letters and has
  no capital letter.
\<close>

theorem signIn_creates_user:
  assumes prov: "map_option provider acct = Some ''discord'' \<or> map_option provider acct = Some ''google''"
    and addr: "oauth_user.email u = Some addr"
    and unseen: "lookup_email (docs w) (Some (toLowerCase e addr)) = None"
    and run: "signIn e rt u acct w = ((True, u'), w')"
  shows "\<exists>d. docs w' = docs w @ [(new_oid rt, d)] \<and>
           saves (events_since w w') = 1 \<and>
           db_user.email d = Some (toLowerCase e addr) \<and>
           level d = 1 \<and> badges d = [] \<and>
           stats d = \<lparr>contributionPoints = 0, feedbackSubmitted = 0, bugsReported = 0,
                      featuresProposed = 0, dataCorrections = 0, correctionsAccepted = 0\<rparr> \<and>
           preferences d = \<lparr>emailNotifications = False, publicProfile = True,
                            showContributions = True\<rparr> \<and>
           isActive d = True \<and> isBanned d = False \<and>
           (rank d, roles d) =
             (if isAdminEmail e addr then (''elite'', Some [''user'', ''admin''])
              else (''recruit'', Some [''user''])) \<and>
           (list_all is_ascii addr \<longrightarrow>
              (\<exists>s. db_user.email d = Some s \<and> equal_ignoring_case addr s \<and>
                   list_all (\<lambda>c. \<not> is_capital c) s))"
proof -
  from signIn_new_success[OF prov _ run] addr unseen
  obtain base where
    d: "docs w' = docs w @ [(new_oid rt, newUser e rt u (uniqueUsername rt (docs w) base))]" and
    t: "trace w' = trace w @ [Done ConnectDB, Done (FindOne (Some (toLowerCase e addr))),
                              Done (EnsureUniqueUsername base), Done (Save (new_oid rt))]"
    by auto
  have "saves (events_since w w') = 1"
    by (simp add: t events_since_def saves_def)
  with d addr toLowerCase_ascii_small[of addr e] show ?thesis
    by (simp add: newUser_def)
qed

theorem signIn_creates_user_witness:
  "lookup_email [] (Some (toLowerCase sample_env ''BOSS@x.com'')) = None \<and>
   signIn sample_env sample_runtime boss google \<lparr>docs = [], trace = [], faults = []\<rparr> =
     ((True, boss\<lparr>user_id := ''id7''\<rparr>),
      \<lparr>docs = [(''id7'',
          \<lparr>email = Some ''boss@x.com'', displayName = Some ''Neo'', username = ''neo'',
           image = None, vrHeadset = None, level = 1, rank = ''elite'', badges = [],
           stats = \<lparr>contributionPoints = 0, feedbackSubmitted = 0, bugsReported = 0,
                    featuresProposed = 0, dataCorrections = 0, correctionsAccepted = 0\<rparr>,
           roles = Some [''user'', ''admin''],
           preferences = \<lparr>emailNotifications = False, publicProfile = True,
                          showContributions = True\<rparr>,
           isActive = True, isBanned = False, lastLoginAt = 100\<rparr>)],
       trace = [Done ConnectDB, Done (FindOne (Some ''boss@x.com'')),
                Done (EnsureUniqueUsername ''neo''), Done (Save ''id7'')],
       faults = []\<rparr>) \<and>
   equal_ignoring_case ''BOSS@x.com'' ''boss@x.com'' \<and>
   lookup_email [(''id1'', boss_doc (Some [''user'']) ''recruit'' 7)]
      (Some (toLowerCase sample_env ECOLE)) = None \<and>
   signIn sample_env sample_runtime pupil google
     \<lparr>docs = [(''id1'', boss_doc (Some [''user'']) ''recruit'' 7)], trace = [], faults = []\<rparr> =
     ((True, pupil\<lparr>user_id := ''id7''\<rparr>),
      \<lparr>docs = [(''id1'', boss_doc (Some [''user'']) ''recruit'' 7),
               (''id7'',
          \<lparr>email = Some ecole, displayName = None, username = ''neo'',
           image = Some ''p.png'', vrHeadset = None, level = 1, rank = ''recruit'', badges = [],
           stats = \<lparr>contributionPoints = 0, feedbackSubmitted = 0, bugsReported = 0,
                    featuresProposed = 0, dataCorrections = 0, correctionsAccepted = 0\<rparr>,
           roles = Some [''user''],
           preferences = \<lparr>emailNotifications = False, publicProfile = True,
                          showContributions = True\<rparr>,
           isActive = True, isBanned = False, lastLoginAt = 100\<rparr>)],
       trace = [Done ConnectDB, Done (FindOne (Some ecole)),
                Done (EnsureUniqueUsername ''neo''), Done (Save ''id7'')],
       faults = []\<rparr>)"
  using signIn_creates_user
    [where acct = google and u = boss and addr = "''BOSS@x.com''"
       and w = "\<lparr>docs = [], trace = [], faults = []\<rparr>"
       and e = sample_env and rt = sample_runtime and u' = "boss\<lparr>user_id := ''id7''\<rparr>"
       and w' = "\<lparr>docs = [(''id7'', newUser sample_env sample_runtime boss ''neo'')],
         trace = [Done ConnectDB, Done (FindOne (Some ''boss@x.com'')),
                  Done (EnsureUniqueUsername ''neo''), Done (Save ''id7'')],
         faults = []\<rparr>"]
    signIn_creates_user
    [where acct = google and u = pupil and addr = ECOLE
       and w = "\<lparr>docs = [(''id1'', boss_doc (Some [''user'']) ''recruit'' 7)], trace = [],
                 faults = []\<rparr>"
       and e = sample_env and rt = sample_runtime and u' = "pupil\<lparr>user_id := ''id7''\<rparr>"
       and w' = "\<lparr>docs = [(''id1'', boss_doc (Some [''user'']) ''recruit'' 7),
                         (''id7'', newUser sample_env sample_runtime pupil ''neo'')],
         trace = [Done ConnectDB, Done (FindOne (Some ecole)),
                  Done (EnsureUniqueUsername ''neo''), Done (Save ''id7'')],
         faults = []\<rparr>"]
  by (simp add: run_defs pupil_def ECOLE_def ecole_def equal_ignoring_case_def same_letter_def)

subsection \<open>Reconciling an existing record\<close>

text \<open>
  C2. Let the provider be \<open>discord\<close> or \<open>google\<close> and let \<open>signIn\<close> return \<open>true\<close> for an email
  whose lower-casing finds the document \<open>d\<close> under the key \<open>k\<close>. Afterwards the same lookup
  finds a document \<open>d'\<close> under \<open>k\<close> such that: if the email is allow-listed and \<open>d\<close> has a
  role list without \<open>admin\<close>, the role list of \<open>d'\<close> is that of \<open>d\<close> followed by \<open>admin\<close> and the
  rank of \<open>d'\<close> is \<open>elite\<close> (a document with no role list gets the list \<open>[admin]\<close>); if the
  role list of \<open>d\<close> holds \<open>admin\<close>, or the email is not allow-listed, roles and rank of \<open>d'\<close>
  are those of \<open>d\<close>.
\<close>

theorem signIn_promotes_allowlisted:
  assumes prov: "map_option provider acct = Some ''discord'' \<or> map_option provider acct = Some ''google''"
    and addr: "oauth_user.email u = Some addr"
    and seen: "lookup_email (docs w) (Some (toLowerCase e addr)) = Some (k, d)"
    and run: "signIn e rt u acct w = ((True, u'), w')"
  shows "\<exists>d'. lookup_email (docs w') (Some (toLowerCase e addr)) = Some (k, d') \<and>
              (\<forall>rs. isAdminEmail e addr \<and> roles d = Some rs \<and> ''admin'' \<notin> set rs \<longrightarrow>
                 roles d' = Some (rs @ [''admin'']) \<and> rank d' = ''elite'') \<and>
              (isAdminEmail e addr \<and> roles d = None \<longrightarrow>
                 roles d' = Some [''admin''] \<and> rank d' = ''elite'') \<and>
              (\<forall>rs. roles d = Some rs \<and> ''admin'' \<in> set rs \<longrightarrow>
                 roles d' = Some rs \<and> rank d' = rank d) \<and>
              (\<not> isAdminEmail e addr \<longrightarrow> roles d' = roles d \<and> rank d' = rank d)"
proof -
  let ?d' = "fst (reconcile e rt u d)"
  have seen': "lookup_email (docs w) (map_option (toLowerCase e) (oauth_user.email u)) = Some (k, d)"
    using seen addr by simp
  from signIn_existing_success[OF prov seen' run]
  have "docs w' = AList.update k ?d' (docs w)" by simp
  then have "lookup_email (docs w') (Some (toLowerCase e addr)) = Some (k, ?d')"
    using lookup_email_reconciled[OF seen] by simp
  moreover have "\<forall>rs. isAdminEmail e addr \<and> roles d = Some rs \<and> ''admin'' \<notin> set rs \<longrightarrow>
                 roles ?d' = Some (rs @ [''admin'']) \<and> rank ?d' = ''elite''"
    using isAdminEmail_nonempty[of e addr]
    by (auto simp: reconcile_roles reconcile_rank addr Boolean_def roles_includes_def
          roles_or_empty_def)
  moreover have "isAdminEmail e addr \<and> roles d = None \<longrightarrow>
                 roles ?d' = Some [''admin''] \<and> rank ?d' = ''elite''"
    using isAdminEmail_nonempty[of e addr]
    by (auto simp: reconcile_roles reconcile_rank addr Boolean_def roles_includes_def
          roles_or_empty_def)
  moreover have "\<forall>rs. roles d = Some rs \<and> ''admin'' \<in> set rs \<longrightarrow>
                 roles ?d' = Some rs \<and> rank ?d' = rank d"
    by (simp add: reconcile_roles reconcile_rank roles_includes_def)
  moreover have "\<not> isAdminEmail e addr \<longrightarrow> roles ?d' = roles d \<and> rank ?d' = rank d"
    by (simp add: reconcile_roles reconcile_rank addr)
  ultimately show ?thesis by blast
qed

theorem signIn_promotes_allowlisted_witness:
  "isAdminEmail sample_env ''BOSS@x.com'' \<and>
   signIn sample_env sample_runtime boss google
     \<lparr>docs = [(''id1'', boss_doc (Some [''user'', ''tester'']) ''recruit'' 7)], trace = [],
      faults = []\<rparr> =
     ((True, boss\<lparr>user_id := ''id1''\<rparr>),
      \<lparr>docs = [(''id1'', boss_doc (Some [''user'', ''tester'', ''admin'']) ''elite'' 100)],
       trace = [Done ConnectDB, Done (FindOne (Some ''boss@x.com'')), Done (Save ''id1'')],
       faults = []\<rparr>) \<and>
   signIn sample_env sample_runtime boss google
     \<lparr>docs = [(''id1'', boss_doc None ''recruit'' 7)], trace = [], faults = []\<rparr> =
     ((True, boss\<lparr>user_id := ''id1''\<rparr>),
      \<lparr>docs = [(''id1'', boss_doc (Some [''admin'']) ''elite'' 100)],
       trace = [Done ConnectDB, Done (FindOne (Some ''boss@x.com'')), Done (Save ''id1'')],
       faults = []\<rparr>) \<and>
   signIn sample_env sample_runtime boss google
     \<lparr>docs = [(''id1'', boss_doc (Some [''admin'', ''user'']) ''veteran'' 7)], trace = [],
      faults = []\<rparr> =
     ((True, boss\<lparr>user_id := ''id1''\<rparr>),
      \<lparr>docs = [(''id1'', boss_doc (Some [''admin'', ''user'']) ''veteran'' 100)],
       trace = [Done ConnectDB, Done (FindOne (Some ''boss@x.com'')), Done (Save ''id1'')],
       faults = []\<rparr>) \<and>
   \<not> isAdminEmail no_admin_env ''BOSS@x.com'' \<and>
   signIn no_admin_env sample_runtime boss google
     \<lparr>docs = [(''id1'', boss_doc (Some [''user'']) ''recruit'' 7)], trace = [], faults = []\<rparr> =
     ((True, boss\<lparr>user_id := ''id1''\<rparr>),
      \<lparr>docs = [(''id1'', boss_doc (Some [''user'']) ''recruit'' 100)],
       trace = [Done ConnectDB, Done (FindOne (Some ''boss@x.com'')), Done (Save ''id1'')],
       faults = []\<rparr>)"
  using signIn_promotes_allowlisted
    [where acct = google and u = boss and addr = "''BOSS@x.com''" and e = sample_env
       and rt = sample_runtime and k = "''id1''" and u' = "boss\<lparr>user_id := ''id1''\<rparr>"
       and d = "boss_doc (Some [''user'', ''tester'']) ''recruit'' 7"
       and w = "\<lparr>docs = [(''id1'', boss_doc (Some [''user'', ''tester'']) ''recruit'' 7)],
                 trace = [], faults = []\<rparr>"
       and w' = "\<lparr>docs = [(''id1'', boss_doc (Some [''user'', ''tester'', ''admin'']) ''elite'' 100)],
          trace = [Done ConnectDB, Done (FindOne (Some ''boss@x.com'')), Done (Save ''id1'')],
          faults = []\<rparr>"]
    signIn_promotes_allowlisted
    [where acct = google and u = boss and addr = "''BOSS@x.com''" and e = sample_env
       and rt = sample_runtime and k = "''id1''" and u' = "boss\<lparr>user_id := ''id1''\<rparr>"
       and d = "boss_doc None ''recruit'' 7"
       and w = "\<lparr>docs = [(''id1'', boss_doc None ''recruit'' 7)], trace = [], faults = []\<rparr>"
       and w' = "\<lparr>docs = [(''id1'', boss_doc (Some [''admin'']) ''elite'' 100)],
          trace = [Done ConnectDB, Done (FindOne (Some ''boss@x.com'')), Done (Save ''id1'')],
          faults = []\<rparr>"]
    signIn_promotes_allowlisted
    [where acct = google and u = boss and addr = "''BOSS@x.com''" and e = sample_env
       and rt = sample_runtime and k = "''id1''" and u' = "boss\<lparr>user_id := ''id1''\<rparr>"
       and d = "boss_doc (Some [''admin'', ''user'']) ''veteran'' 7"
       and w = "\<lparr>docs = [(''id1'', boss_doc (Some [''admin'', ''user'']) ''veteran'' 7)],
                 trace = [], faults = []\<rparr>"
       and w' = "\<lparr>docs = [(''id1'', boss_doc (Some [''admin'', ''user'']) ''veteran'' 100)],
          trace = [Done ConnectDB, Done (FindOne (Some ''boss@x.com'')), Done (Save ''id1'')],
          faults = []\<rparr>"]
    signIn_promotes_allowlisted
    [where acct = google and u = boss and addr = "''BOSS@x.com''" and e = no_admin_env
       and rt = sample_runtime and k = "''id1''" and u' = "boss\<lparr>user_id := ''id1''\<rparr>"
       and d = "boss_doc (Some [''user'']) ''recruit'' 7"
       and w = "\<lparr>docs = [(''id1'', boss_doc (Some [''user'']) ''recruit'' 7)],
                 trace = [], faults = []\<rparr>"
       and w' = "\<lparr>docs = [(''id1'', boss_doc (Some [''user'']) ''recruit'' 100)],
          trace = [Done ConnectDB, Done (FindOne (Some ''boss@x.com'')), Done (Save ''id1'')],
          faults = []\<rparr>"]
  by (simp add: run_defs)

text \<open>
  C3. Two successful runs of \<open>signIn\<close> in succession for an allow-listed email, starting from
  a document whose role list has no duplicates: the second run changes neither roles nor
  rank, and the role list holds \<open>admin\<close> exactly once.
\<close>

theorem signIn_twice_one_admin:
  assumes prov: "map_option provider acct = Some ''discord'' \<or> map_option provider acct = Some ''google''"
    and addr: "oauth_user.email u = Some addr" "oauth_user.email v = Some addr"
    and listed: "isAdminEmail e addr"
    and seen: "lookup_email (docs w) (Some (toLowerCase e addr)) = Some (k, d)"
    and dist: "distinct (roles_or_empty d)"
    and run1: "signIn e rt u acct w = ((True, u'), w')"
    and run2: "signIn e rt' v acct w' = ((True, v'), w'')"
  shows "\<exists>d1 d2. lookup_email (docs w') (Some (toLowerCase e addr)) = Some (k, d1) \<and>
                 lookup_email (docs w'') (Some (toLowerCase e addr)) = Some (k, d2) \<and>
                 roles d2 = roles d1 \<and> rank d2 = rank d1 \<and>
                 count_list (roles_or_empty d2) ''admin'' = 1"
proof -
  let ?d1 = "fst (reconcile e rt u d)"
  let ?d2 = "fst (reconcile e rt' v ?d1)"
  have ne: "addr \<noteq> []"
    using listed by (rule isAdminEmail_nonempty)
  have seen0: "lookup_email (docs w) (map_option (toLowerCase e) (oauth_user.email u)) = Some (k, d)"
    using seen addr by simp
  from signIn_existing_success[OF prov seen0 run1]
  have "docs w' = AList.update k ?d1 (docs w)" by simp
  then have l1: "lookup_email (docs w') (Some (toLowerCase e addr)) = Some (k, ?d1)"
    using lookup_email_reconciled[OF seen] by simp
  then have seen1: "lookup_email (docs w') (map_option (toLowerCase e) (oauth_user.email v)) = Some (k, ?d1)"
    using addr by simp
  from signIn_existing_success[OF prov seen1 run2]
  have "docs w'' = AList.update k ?d2 (docs w')" by simp
  then have l2: "lookup_email (docs w'') (Some (toLowerCase e addr)) = Some (k, ?d2)"
    using lookup_email_reconciled[OF l1] by simp
  have adm: "roles_includes ?d1 ''admin''"
    using ne listed by (auto simp: reconcile_roles roles_includes_def roles_or_empty_def addr Boolean_def
                              split: option.splits)
  have same: "roles ?d2 = roles ?d1" "rank ?d2 = rank ?d1"
    using adm by (simp_all add: reconcile_roles reconcile_rank)
  have "count_list (roles_or_empty ?d1) ''admin'' = 1"
  proof (cases "roles_includes d ''admin''")
    case True
    then have "roles_or_empty ?d1 = roles_or_empty d" "''admin'' \<in> set (roles_or_empty d)"
      by (auto simp: roles_or_empty_def reconcile_roles roles_includes_def split: option.splits)
    with dist show ?thesis
      by (simp add: count_list_distinct)
  next
    case False
    then have "roles_or_empty ?d1 = roles_or_empty d @ [''admin'']" "''admin'' \<notin> set (roles_or_empty d)"
      using ne listed
      by (auto simp: roles_or_empty_def reconcile_roles roles_includes_def addr Boolean_def
               split: option.splits)
    then show ?thesis
      by (simp add: count_list_0_iff)
  qed
  then have "count_list (roles_or_empty ?d2) ''admin'' = 1"
    using same by (simp add: roles_or_empty_def)
  with l1 l2 same show ?thesis by blast
qed

theorem signIn_twice_one_admin_witness:
  "isAdminEmail sample_env ''BOSS@x.com'' \<and>
   distinct (roles_or_empty (boss_doc (Some [''user'']) ''recruit'' 7)) \<and>
   signIn sample_env sample_runtime boss google
     \<lparr>docs = [(''id1'', boss_doc (Some [''user'']) ''recruit'' 7)], trace = [], faults = []\<rparr> =
     ((True, boss\<lparr>user_id := ''id1''\<rparr>),
      \<lparr>docs = [(''id1'', boss_doc (Some [''user'', ''admin'']) ''elite'' 100)],
       trace = [Done ConnectDB, Done (FindOne (Some ''boss@x.com'')), Done (Save ''id1'')],
       faults = []\<rparr>) \<and>
   signIn sample_env (sample_runtime\<lparr>now := 101\<rparr>) boss google
     \<lparr>docs = [(''id1'', boss_doc (Some [''user'', ''admin'']) ''elite'' 100)],
      trace = [Done ConnectDB, Done (FindOne (Some ''boss@x.com'')), Done (Save ''id1'')],
      faults = []\<rparr> =
     ((True, boss\<lparr>user_id := ''id1''\<rparr>),
      \<lparr>docs = [(''id1'', boss_doc (Some [''user'', ''admin'']) ''elite'' 101)],
       trace = [Done ConnectDB, Done (FindOne (Some ''boss@x.com'')), Done (Save ''id1''),
                Done ConnectDB, Done (FindOne (Some ''boss@x.com'')), Done (Save ''id1'')],
       faults = []\<rparr>) \<and>
   count_list (roles_or_empty (boss_doc (Some [''user'', ''admin'']) ''elite'' 101)) ''admin'' = 1"
  using signIn_twice_one_admin
    [where acct = google and u = boss and v = boss and addr = "''BOSS@x.com''"
       and e = sample_env and k = "''id1''" and d = "boss_doc (Some [''user'']) ''recruit'' 7"
       and rt = sample_runtime and rt' = "sample_runtime\<lparr>now := 101\<rparr>"
       and u' = "boss\<lparr>user_id := ''id1''\<rparr>" and v' = "boss\<lparr>user_id := ''id1''\<rparr>"
       and w = "\<lparr>docs = [(''id1'', boss_doc (Some [''user'']) ''recruit'' 7)], trace = [],
                 faults = []\<rparr>"
       and w' = "\<lparr>docs = [(''id1'', boss_doc (Some [''user'', ''admin'']) ''elite'' 100)],
         trace = [Done ConnectDB, Done (FindOne (Some ''boss@x.com'')), Done (Save ''id1'')],
         faults = []\<rparr>"
       and w'' = "\<lparr>docs = [(''id1'', boss_doc (Some [''user'', ''admin'']) ''elite'' 101)],
         trace = [Done ConnectDB, Done (FindOne (Some ''boss@x.com'')), Done (Save ''id1''),
                  Done ConnectDB, Done (FindOne (Some ''boss@x.com'')), Done (Save ''id1'')],
         faults = []\<rparr>"]
  by (simp add: run_defs)

text \<open>
  C4. Whatever the provider, the faults of the store and the result of the run: the document
  that the lower-cased email finds before \<open>signIn\<close> is found under the same key afterwards,
  with every role it had, and with rank \<open>elite\<close> if it had rank \<open>elite\<close>.
\<close>

theorem signIn_never_demotes:
  assumes seen: "lookup_email (docs w) (map_option (toLowerCase e) (oauth_user.email u)) = Some (k, d)"
    and run: "signIn e rt u acct w = (r, w')"
  shows "\<exists>d'. lookup_email (docs w') (map_option (toLowerCase e) (oauth_user.email u)) = Some (k, d') \<and>
              set (roles_or_empty d) \<subseteq> set (roles_or_empty d') \<and>
              (rank d = ''elite'' \<longrightarrow> rank d' = ''elite'')"
proof -
  let ?x = "map_option (toLowerCase e) (oauth_user.email u)"
  let ?d' = "fst (reconcile e rt u d)"
  from signIn_docs_cases[OF run] seen
  consider "docs w' = docs w" | "docs w' = AList.update k ?d' (docs w)"
    by auto
  then show ?thesis
  proof cases
    case 1
    with seen show ?thesis by auto
  next
    case 2
    have "lookup_email (docs w') ?x = Some (k, ?d')"
      using lookup_email_reconciled[OF seen] 2 by simp
    moreover have "set (roles_or_empty d) \<subseteq> set (roles_or_empty ?d')"
      by (auto simp: roles_or_empty_def reconcile_roles)
    moreover have "rank d = ''elite'' \<longrightarrow> rank ?d' = ''elite''"
      by (simp add: reconcile_rank)
    ultimately show ?thesis by blast
  qed
qed

theorem signIn_never_demotes_witness:
  "signIn no_admin_env sample_runtime boss google
     \<lparr>docs = [(''id1'', boss_doc (Some [''user'', ''admin'']) ''elite'' 7)], trace = [], faults = []\<rparr> =
     ((True, boss\<lparr>user_id := ''id1''\<rparr>),
      \<lparr>docs = [(''id1'', boss_doc (Some [''user'', ''admin'']) ''elite'' 100)],
       trace = [Done ConnectDB, Done (FindOne (Some ''boss@x.com'')), Done (Save ''id1'')],
       faults = []\<rparr>) \<and>
   lookup_email [(''id1'', boss_doc (Some [''user'', ''admin'']) ''elite'' 100)]
      (map_option (toLowerCase no_admin_env) (oauth_user.email boss)) =
     Some (''id1'', boss_doc (Some [''user'', ''admin'']) ''elite'' 100) \<and>
   rank (boss_doc (Some [''user'', ''admin'']) ''elite'' 100) = ''elite''"
  using signIn_never_demotes
    [where w = "\<lparr>docs = [(''id1'', boss_doc (Some [''user'', ''admin'']) ''elite'' 7)],
                   trace = [], faults = []\<rparr>"
       and u = boss and k = "''id1''" and d = "boss_doc (Some [''user'', ''admin'']) ''elite'' 7"
       and e = no_admin_env and rt = sample_runtime and acct = google
       and r = "(True, boss\<lparr>user_id := ''id1''\<rparr>)"
       and w' = "\<lparr>docs = [(''id1'', boss_doc (Some [''user'', ''admin'']) ''elite'' 100)],
          trace = [Done ConnectDB, Done (FindOne (Some ''boss@x.com'')), Done (Save ''id1'')],
          faults = []\<rparr>"]
  by (simp add: run_defs)

text \<open>
  C5. A successful run of \<open>signIn\<close> on an existing document, promoted or not, stores the
  current time as its \<open>lastLoginAt\<close> and makes three store operations: the connection, the
  lookup by email and exactly one save.
\<close>

theorem signIn_refreshes_lastLoginAt:
  assumes prov: "map_option provider acct = Some ''discord'' \<or> map_option provider acct = Some ''google''"
    and seen: "lookup_email (docs w) (map_option (toLowerCase e) (oauth_user.email u)) = Some (k, d)"
    and run: "signIn e rt u acct w = ((True, u'), w')"
  shows "\<exists>d'. lookup_email (docs w') (map_option (toLowerCase e) (oauth_user.email u)) = Some (k, d') \<and>
              lastLoginAt d' = now rt \<and>
              events_since w w' =
                [Done ConnectDB, Done (FindOne (map_option (toLowerCase e) (oauth_user.email u))),
                 Done (Save k)] \<and>
              saves (events_since w w') = 1"
proof -
  let ?d' = "fst (reconcile e rt u d)"
  from signIn_existing_success[OF prov seen run]
  have d: "docs w' = AList.update k ?d' (docs w)"
    and t: "trace w' = trace w @ [Done ConnectDB,
              Done (FindOne (map_option (toLowerCase e) (oauth_user.email u))), Done (Save k)]"
    by simp_all
  have "lookup_email (docs w') (map_option (toLowerCase e) (oauth_user.email u)) = Some (k, ?d')"
    using lookup_email_reconciled[OF seen] d by simp
  moreover have "lastLoginAt ?d' = now rt"
    by (rule reconcile_lastLoginAt)
  moreover have "events_since w w' =
      [Done ConnectDB, Done (FindOne (map_option (toLowerCase e) (oauth_user.email u))), Done (Save k)]"
    by (simp add: t events_since_def)
  ultimately show ?thesis
    by (simp add: saves_def)
qed

theorem signIn_refreshes_lastLoginAt_witness:
  "signIn no_admin_env sample_runtime boss google
     \<lparr>docs = [(''id1'', boss_doc (Some [''user'']) ''recruit'' 7)],
      trace = [Done ConnectDB], faults = []\<rparr> =
     ((True, boss\<lparr>user_id := ''id1''\<rparr>),
      \<lparr>docs = [(''id1'', boss_doc (Some [''user'']) ''recruit'' 100)],
       trace = [Done ConnectDB, Done ConnectDB, Done (FindOne (Some ''boss@x.com'')),
                Done (Save ''id1'')],
       faults = []\<rparr>) \<and>
   lastLoginAt (boss_doc (Some [''user'']) ''recruit'' 100) = now sample_runtime \<and>
   saves [Done ConnectDB, Done (FindOne (Some ''boss@x.com'')), Done (Save ''id1'')] = 1"
  using signIn_refreshes_lastLoginAt
    [where acct = google
       and w = "\<lparr>docs = [(''id1'', boss_doc (Some [''user'']) ''recruit'' 7)],
                 trace = [Done ConnectDB], faults = []\<rparr>"
       and u = boss and k = "''id1''" and d = "boss_doc (Some [''user'']) ''recruit'' 7"
       and e = no_admin_env and rt = sample_runtime
       and u' = "boss\<lparr>user_id := ''id1''\<rparr>"
       and w' = "\<lparr>docs = [(''id1'', boss_doc (Some [''user'']) ''recruit'' 100)],
          trace = [Done ConnectDB, Done ConnectDB, Done (FindOne (Some ''boss@x.com'')),
                   Done (Save ''id1'')],
          faults = []\<rparr>"]
  by (simp add: run_defs saves_def events_since_def)

subsection \<open>Errors of the store\<close>

text \<open>
  C6. For the providers \<open>discord\<close> and \<open>google\<close>: if a store operation raised during the run
  of \<open>signIn\<close>, the callback returns \<open>false\<close> (the result type has no room for an error), the
  identity and the collection are as before, the raised operation is the last event of
  the run, and no operation was attempted twice.
\<close>

theorem signIn_store_error_refuses:
  assumes prov: "map_option provider acct = Some ''discord'' \<or> map_option provider acct = Some ''google''"
    and run: "signIn e rt u acct w = ((ret, u'), w')"
    and raised: "Raised op \<in> set (events_since w w')"
  shows "ret = False \<and> u' = u \<and> docs w' = docs w \<and>
         last (events_since w w') = Raised op \<and>
         distinct (map event_op (events_since w w'))"
proof -
  from signIn_events_cases[OF prov run] obtain evs where
    t: "trace w' = trace w @ evs" and dist: "distinct (map event_op evs)" and
    c: "(ret = True \<and> (\<forall>op. Raised op \<notin> set evs)) \<or>
        (ret = False \<and> u' = u \<and> docs w' = docs w \<and>
         (\<forall>op. Raised op \<in> set evs \<longrightarrow> evs \<noteq> [] \<and> last evs = Raised op))"
    by blast
  have ev: "events_since w w' = evs"
    by (simp add: events_since_def t)
  with raised c dist show ?thesis by auto
qed

theorem signIn_store_error_refuses_witness:
  "signIn sample_env sample_runtime boss google
     \<lparr>docs = [(''id1'', boss_doc (Some [''user'']) ''recruit'' 7)], trace = [],
      faults = [False, False, True]\<rparr> =
     ((False, boss),
      \<lparr>docs = [(''id1'', boss_doc (Some [''user'']) ''recruit'' 7)],
       trace = [Done ConnectDB, Done (FindOne (Some ''boss@x.com'')), Raised (Save ''id1'')],
       faults = []\<rparr>) \<and>
   last [Done ConnectDB, Done (FindOne (Some ''boss@x.com'')), Raised (Save ''id1'')] =
     Raised (Save ''id1'')"
  using signIn_store_error_refuses
    [of google sample_env sample_runtime boss
        "\<lparr>docs = [(''id1'', boss_doc (Some [''user'']) ''recruit'' 7)], trace = [],
          faults = [False, False, True]\<rparr>"
        False boss
        "\<lparr>docs = [(''id1'', boss_doc (Some [''user'']) ''recruit'' 7)],
          trace = [Done ConnectDB, Done (FindOne (Some ''boss@x.com'')), Raised (Save ''id1'')],
          faults = []\<rparr>"
        "Save ''id1''"]
  by (simp add: run_defs events_since_def)

subsection \<open>The token\<close>

lemmas jwt_defs = jwt_def jwt_initial_def jwt_refresh_def connectDB_def findById_def attempt_def
  lookup_id_def get_prop_def Object_assign_def




text \<open>With no fault pending, \<open>jwt\<close> returns a token.\<close>

lemma jwt_returns:
  assumes "True \<notin> set (faults w)"
  shows "\<exists>token'. fst (jwt token usr acct trigger payload w) = Inr token'"
  using assms
  by (auto simp: jwt_def jwt_initial_def jwt_refresh_def connectDB_def findById_def attempt_def
        Let_def
      split: list.splits if_splits sum.splits option.splits prod.splits)




text \<open>
  C10. If the lookup of initial issuance (when a user/account pair is there) finds no
  record, and on trigger \<open>update\<close> the lookup by the token's \<open>id\<close> finds none and no payload
  comes with it, then \<open>jwt\<close> returns the token it was given, every field as it was, unless
  a store operation raised.
\<close>

theorem jwt_missing_record_keeps_token:
  assumes run: "jwt token usr acct trigger payload w = (r, w')"
    and initial: "\<forall>u a. usr = Some u \<and> acct = Some a \<longrightarrow>
                    lookup_id (docs w) (JStr (user_id u)) = None"
    and refresh: "trigger = Some ''update'' \<longrightarrow>
                    lookup_id (docs w) (get_prop token ''id'') = None \<and> payload = None"
  shows "r = Inr token \<or> (\<exists>op. r = Inl (StoreError op) \<and> Raised op \<in> set (events_since w w'))"
  using assms
  by (auto simp: jwt_def jwt_initial_def jwt_refresh_def connectDB_def findById_def attempt_def
        events_since_def Let_def
      split: list.splits if_splits sum.splits option.splits prod.splits)


theorem jwt_missing_record_keeps_token_witness:
  "lookup_id (docs boss_world) (JStr ''gone'') = None \<and>
   lookup_id (docs boss_world) (get_prop [''id'' \<mapsto> JStr ''gone'', ''rank'' \<mapsto> JStr ''elite''] ''id'') = None \<and>
   jwt [''id'' \<mapsto> JStr ''gone'', ''rank'' \<mapsto> JStr ''elite'']
       (Some (boss\<lparr>user_id := ''gone''\<rparr>)) google (Some ''update'') None boss_world =
     (Inr [''id'' \<mapsto> JStr ''gone'', ''rank'' \<mapsto> JStr ''elite''],
      boss_world\<lparr>trace := [Done ConnectDB, Done (FindById (JStr ''gone'')),
                             Done ConnectDB, Done (FindById (JStr ''gone''))]\<rparr>)"
  using jwt_missing_record_keeps_token
    [where token = "[''id'' \<mapsto> JStr ''gone'', ''rank'' \<mapsto> JStr ''elite'']"
       and usr = "Some (boss\<lparr>user_id := ''gone''\<rparr>)" and acct = google
       and trigger = "Some ''update''" and payload = None and w = boss_world
       and r = "Inr [''id'' \<mapsto> JStr ''gone'', ''rank'' \<mapsto> JStr ''elite'']"
       and w' = "boss_world\<lparr>trace := [Done ConnectDB, Done (FindById (JStr ''gone'')),
                             Done ConnectDB, Done (FindById (JStr ''gone''))]\<rparr>"]
  by (simp add: jwt_defs boss_world_def boss_def google_def)

subsection \<open>The outward session\<close>

lemma session_found:
  "user so = Some u \<Longrightarrow>
   session (Some so) (Some t) =
     Some (so\<lparr>user := Some (u(''id'' \<mapsto> get_prop t ''id'',
                               ''username'' \<mapsto> get_prop t ''username'',
                               ''displayName'' \<mapsto> get_prop t ''displayName'',
                               ''image'' \<mapsto> get_prop t ''image'',
                               ''rank'' \<mapsto> get_prop t ''rank'',
                               ''roles'' \<mapsto> get_prop t ''roles'',
                               ''isBanned'' \<mapsto> get_prop t ''isBanned''))\<rparr>)"
  by (simp add: session_def)

text \<open>
  C8. The \<open>session\<close> callback takes no world: it cannot reach the store. On a session with a
  user object and a token, the result is the session with only its user object replaced;
  in the new user object each of the seven fields \<open>id\<close>, \<open>username\<close>, \<open>displayName\<close>, \<open>image\<close>,
  \<open>rank\<close>, \<open>roles\<close>, \<open>isBanned\<close> reads as in the token, and every other field is as before.
  A session without a user object, no session, or no token comes back unchanged.

  The spec counts six fields; the counterexample below is a call that changes seven.
\<close>

theorem session_copies_seven:
  "(user so = Some u \<longrightarrow>
      (\<exists>u'. session (Some so) (Some t) = Some (so\<lparr>user := Some u'\<rparr>) \<and>
            (\<forall>k \<in> {''id'', ''username'', ''displayName'', ''image'', ''rank'', ''roles'',
                     ''isBanned''}. u' k = Some (get_prop t k)) \<and>
            (\<forall>k. k \<notin> {''id'', ''username'', ''displayName'', ''image'', ''rank'', ''roles'',
                       ''isBanned''} \<longrightarrow> u' k = u k))) \<and>
   (user so = None \<longrightarrow> session (Some so) tok = Some so) \<and>
   session None tok = None \<and>
   session s None = s"
proof -
  have "user so = Some u \<longrightarrow>
      (\<exists>u'. session (Some so) (Some t) = Some (so\<lparr>user := Some u'\<rparr>) \<and>
            (\<forall>k \<in> {''id'', ''username'', ''displayName'', ''image'', ''rank'', ''roles'',
                     ''isBanned''}. u' k = Some (get_prop t k)) \<and>
            (\<forall>k. k \<notin> {''id'', ''username'', ''displayName'', ''image'', ''rank'', ''roles'',
                       ''isBanned''} \<longrightarrow> u' k = u k))"
  proof
    assume u: "user so = Some u"
    show "\<exists>u'. session (Some so) (Some t) = Some (so\<lparr>user := Some u'\<rparr>) \<and>
            (\<forall>k \<in> {''id'', ''username'', ''displayName'', ''image'', ''rank'', ''roles'',
                     ''isBanned''}. u' k = Some (get_prop t k)) \<and>
            (\<forall>k. k \<notin> {''id'', ''username'', ''displayName'', ''image'', ''rank'', ''roles'',
                       ''isBanned''} \<longrightarrow> u' k = u k)"
      unfolding session_found[OF u]
      by (intro exI conjI, rule refl) simp_all
  qed
  moreover have "user so = None \<longrightarrow> session (Some so) tok = Some so"
    by (cases tok) (simp_all add: session_def)
  moreover have "session None tok = None"
    by (simp add: session_def)
  moreover have "session s None = s"
    by (cases s) (simp_all add: session_def)
  ultimately show ?thesis by blast
qed

theorem session_copies_seven_witness:
  "session (Some \<lparr>user = Some [''name'' \<mapsto> JStr ''Neo''], others = [''expires'' \<mapsto> JStr ''soon'']\<rparr>)
           (Some stale_token) =
     Some \<lparr>user = Some ([''name'' \<mapsto> JStr ''Neo'']
               (''id'' \<mapsto> JStr ''id1'', ''username'' \<mapsto> JStr ''old'',
                ''displayName'' \<mapsto> JStr ''Old'', ''image'' \<mapsto> JStr ''a.png'',
                ''rank'' \<mapsto> JStr ''recruit'', ''roles'' \<mapsto> JArr [JStr ''user''],
                ''isBanned'' \<mapsto> JBool True)),
           others = [''expires'' \<mapsto> JStr ''soon'']\<rparr> \<and>
   session (Some \<lparr>user = None, others = [''expires'' \<mapsto> JStr ''soon'']\<rparr>) (Some stale_token) =
     Some \<lparr>user = None, others = [''expires'' \<mapsto> JStr ''soon'']\<rparr>"
  using session_copies_seven
    [where so = "\<lparr>user = Some [''name'' \<mapsto> JStr ''Neo''], others = [''expires'' \<mapsto> JStr ''soon'']\<rparr>"
       and u = "[''name'' \<mapsto> JStr ''Neo'']" and t = stale_token and tok = "Some stale_token"]
    session_copies_seven
    [where so = "\<lparr>user = None, others = [''expires'' \<mapsto> JStr ''soon'']\<rparr>"
       and tok = "Some stale_token"]
  by (simp add: session_def get_prop_def stale_token_def)

theorem session_six_fields_counterexample:
  "changed_fields
     [''name'', ''email'', ''id'', ''username'', ''displayName'', ''image'', ''rank'', ''roles'',
      ''isBanned'']
     [''name'' \<mapsto> JStr ''Neo'', ''email'' \<mapsto> JStr ''boss@x.com'', ''image'' \<mapsto> JStr ''pic.png'']
     (the (user (the (session
        (Some \<lparr>user = Some [''name'' \<mapsto> JStr ''Neo'', ''email'' \<mapsto> JStr ''boss@x.com'',
                            ''image'' \<mapsto> JStr ''pic.png''],
               others = [''expires'' \<mapsto> JStr ''soon'']\<rparr>)
        (Some stale_token))))) =
   [''id'', ''username'', ''displayName'', ''image'', ''rank'', ''roles'', ''isBanned'']"
  by (simp add: session_def get_prop_def stale_token_def changed_fields_def)

end
